theory Spec2Isabelle
  imports Main "HOL-Library.Sublist"
begin

section \<open>Virtual environments: a model of \<^verbatim>\<open>venv.go\<close>\<close>

text \<open>
  The Go file provisions a Python virtual environment (\<^verbatim>\<open>getPythonVersion\<close>,
  \<^verbatim>\<open>makeVenv\<close>, \<^verbatim>\<open>Ensure\<close>, \<^verbatim>\<open>Update\<close>) and runs binaries inside it
  (\<^verbatim>\<open>VenvCommand.Run\<close>). Everything it does goes through the operating system, so the
  model has three parts: the values of the Go code (errors, structs), the operating
  system as a record of answers (\<open>sys\<close>) together with the mutable state of the running
  process (\<open>world\<close>), and the functions of the file, written over both. A Go function
  that can panic returns an \<open>outcome\<close>.
\<close>

subsection \<open>Errors\<close>

text \<open>
  Go's \<^verbatim>\<open>error\<close> values, as far as the file tells them apart: the exit-status error of
  \<^verbatim>\<open>os/exec\<close> (with the exit code that \<^verbatim>\<open>ExitCode()\<close> reports, \<open>-1\<close> for a process
  killed by a signal), the not-exist error that \<^verbatim>\<open>os.IsNotExist\<close> recognises, the
  error of \<^verbatim>\<open>strconv\<close>, any other library error (by its message), the error made by
  \<^verbatim>\<open>errors.New\<close> and the error made by \<^verbatim>\<open>errors.Wrap\<close> around a cause.
\<close>

datatype numerr = ErrSyntax | ErrRange

datatype goerror =
    ExitError int
  | NotExistError string
  | NumError string numerr
  | OtherError string
  | Fundamental string
  | WithMessage goerror string

text \<open>\<^verbatim>\<open>errors.New(msg)\<close> and \<^verbatim>\<open>errors.Wrap(err, msg)\<close>; the latter is nil for a nil cause.\<close>

definition errorsNew :: "string \<Rightarrow> goerror option" where
  "errorsNew msg = Some (Fundamental msg)"

fun errorsWrap :: "goerror option \<Rightarrow> string \<Rightarrow> goerror option" where
  "errorsWrap None msg = None"
| "errorsWrap (Some e) msg = Some (WithMessage e msg)"

text \<open>The type assertion \<^verbatim>\<open>err.(*exec.ExitError)\<close>: the exit code inside, or nil.\<close>

fun asExitError :: "goerror \<Rightarrow> int option" where
  "asExitError (ExitError n) = Some n"
| "asExitError _ = None"

fun osIsNotExist :: "goerror option \<Rightarrow> bool" where
  "osIsNotExist (Some (NotExistError _)) = True"
| "osIsNotExist _ = False"

text \<open>
  The file gives its errors no types of their own: a failure is told from another by the
  message of the outermost wrapping. \<open>errorKind\<close> reads that message and names the
  failure as the specification's taxonomy does.
\<close>

datatype ErrorKind =
    VersionDetectionError | VersionParseError | InterpreterNotFoundError
  | CreationFailedError | UpdateError
  | EnvironmentLookupError | StartError | TimeoutError | ExecutionFailedError

definition kindOfMessage :: "string \<Rightarrow> ErrorKind option" where
  "kindOfMessage m =
     (if m = ''Unable to determine Python version.'' then Some VersionDetectionError
      else if m = ''Unable to parse Python Major version.'' then Some VersionParseError
      else if m = ''Unable to parse Python Minor version.'' then Some VersionParseError
      else if m = ''virtualenv not found in path'' then Some InterpreterNotFoundError
      else if m = ''unable to create virtual environment'' then Some CreationFailedError
      else if m = ''unable to update virtualenv'' then Some UpdateError
      else if m = ''Unable to lookup the $PATH env variable'' then Some EnvironmentLookupError
      else if m = ''unable to start command'' then Some StartError
      else if m = ''Execution timed out'' then Some TimeoutError
      else if m = ''unable to complete command'' then Some ExecutionFailedError
      else None)"

fun errorKind :: "goerror option \<Rightarrow> ErrorKind option" where
  "errorKind (Some (WithMessage e m)) = kindOfMessage m"
| "errorKind (Some (Fundamental m)) = kindOfMessage m"
| "errorKind _ = None"

subsection \<open>Panics\<close>

datatype panic = IndexOutOfRange nat nat | NilDereference

datatype 'a outcome = Returns 'a | Panics panic

text \<open>Indexing a slice, \<^verbatim>\<open>xs[i]\<close>: Go checks the bound at run time.\<close>

definition index :: "'a list \<Rightarrow> nat \<Rightarrow> 'a outcome" where
  "index xs i = (if i < length xs then Returns (xs ! i) else Panics (IndexOutOfRange i (length xs)))"

subsection \<open>Library functions on strings\<close>

text \<open>A Go string is a sequence of bytes; \<open>string\<close> is a list of 8-bit characters.\<close>

definition isDigit :: "char \<Rightarrow> bool" where
  "isDigit c = (48 \<le> (of_char c :: nat) \<and> (of_char c :: nat) \<le> 57)"

definition digitVal :: "char \<Rightarrow> int" where
  "digitVal c = int (of_char c) - 48"

text \<open>\<^verbatim>\<open>strings.Contains(s, sub)\<close>.\<close>

fun stringsContains :: "string \<Rightarrow> string \<Rightarrow> bool" where
  "stringsContains [] sub = (sub = [])"
| "stringsContains (c # cs) sub = (prefix sub (c # cs) \<or> stringsContains cs sub)"

text \<open>
  \<^verbatim>\<open>strconv.Atoi\<close> for a 64-bit \<^verbatim>\<open>int\<close>: an optional sign, then one or more decimal
  digits and nothing else; a value outside the range of \<^verbatim>\<open>int\<close> is a range error.
\<close>

definition decimal :: "string \<Rightarrow> int" where
  "decimal ds = foldl (\<lambda>n c. 10 * n + digitVal c) 0 ds"

definition Atoi :: "string \<Rightarrow> goerror + int" where
  "Atoi s =
     (let neg = (s \<noteq> [] \<and> hd s = CHR ''-'');
          body = (if s \<noteq> [] \<and> (hd s = CHR ''+'' \<or> hd s = CHR ''-'') then tl s else s)
      in if body \<noteq> [] \<and> list_all isDigit body then
           let n = (if neg then - decimal body else decimal body)
           in if n < - (2 ^ 63) \<or> 2 ^ 63 - 1 < n then Inl (NumError s ErrRange)
              else Inr n
         else Inl (NumError s ErrSyntax))"

subsection \<open>The version pattern\<close>

text \<open>
  \<^verbatim>\<open>regexp.MustCompile(`Python (\d).(\d+)(\.\d+)?`)\<close> and its \<^verbatim>\<open>FindStringSubmatch\<close>.
  Go's regular expressions read the input rune by rune, and \<^verbatim>\<open>.\<close> takes one rune that
  is not a newline, so \<open>runeLen\<close> gives the number of bytes of the first rune as
  \<^verbatim>\<open>utf8.DecodeRuneInString\<close> does (ill-formed input is one byte wide).
\<close>

definition contByte :: "nat \<Rightarrow> bool" where
  "contByte b = (128 \<le> b \<and> b \<le> 191)"

definition secondByteOk :: "nat \<Rightarrow> nat \<Rightarrow> bool" where
  "secondByteOk b0 b1 =
     (if b0 = 224 then 160 \<le> b1 \<and> b1 \<le> 191
      else if b0 = 237 then 128 \<le> b1 \<and> b1 \<le> 159
      else if b0 = 240 then 144 \<le> b1 \<and> b1 \<le> 191
      else if b0 = 244 then 128 \<le> b1 \<and> b1 \<le> 143
      else contByte b1)"

definition runeLen :: "string \<Rightarrow> nat" where
  "runeLen s =
     (case map of_char s of
        [] \<Rightarrow> 0
      | b0 # bs \<Rightarrow>
          if b0 < 194 \<or> 244 < b0 then 1
          else if b0 < 224 then
            (case bs of b1 # _ \<Rightarrow> if contByte b1 then 2 else 1 | _ \<Rightarrow> 1)
          else if b0 < 240 then
            (case bs of b1 # b2 # _ \<Rightarrow>
               if secondByteOk b0 b1 \<and> contByte b2 then 3 else 1 | _ \<Rightarrow> 1)
          else
            (case bs of b1 # b2 # b3 # _ \<Rightarrow>
               if secondByteOk b0 b1 \<and> contByte b2 \<and> contByte b3 then 4 else 1 | _ \<Rightarrow> 1))"

text \<open>
  A match of the pattern at the very start of \<open>s\<close>, as the list of the whole match and
  the three groups. \<^verbatim>\<open>\d+\<close> is greedy and what follows it is optional, so the second
  group is the longest run of digits; an unmatched third group is the empty string.
\<close>

definition patchGroup :: "string \<Rightarrow> string" where
  "patchGroup s =
     (case s of
        c # cs \<Rightarrow> if c = CHR ''.'' \<and> takeWhile isDigit cs \<noteq> [] then c # takeWhile isDigit cs else []
      | [] \<Rightarrow> [])"

definition matchHere :: "string \<Rightarrow> string list option" where
  "matchHere s =
     (if \<not> prefix ''Python '' s then None
      else case drop 7 s of
        [] \<Rightarrow> None
      | d # rest \<Rightarrow>
          if isDigit d \<and> rest \<noteq> [] \<and> hd rest \<noteq> CHR 0x0A then
            let w = runeLen rest;
                ds = takeWhile isDigit (drop w rest);
                p = patchGroup (dropWhile isDigit (drop w rest))
            in if ds = [] then None
               else Some [''Python '' @ [d] @ take w rest @ ds @ p, [d], ds, p]
          else None)"

text \<open>The leftmost match; \<open>[]\<close> is the nil slice that Go returns when there is none.\<close>

fun FindStringSubmatch :: "string \<Rightarrow> string list" where
  "FindStringSubmatch [] = []"
| "FindStringSubmatch (c # cs) =
     (case matchHere (c # cs) of Some m \<Rightarrow> m | None \<Rightarrow> FindStringSubmatch cs)"

subsection \<open>Paths\<close>

text \<open>
  \<^verbatim>\<open>filepath.Join\<close> on Unix: the elements from the first non-empty one on, joined by
  \<^verbatim>\<open>/\<close> and cleaned lexically (\<^verbatim>\<open>filepath.Clean\<close>: no empty and no \<^verbatim>\<open>.\<close> element,
  \<^verbatim>\<open>..\<close> removes the element before it, and is dropped at the root).
\<close>

fun splitOn :: "char \<Rightarrow> string \<Rightarrow> string list" where
  "splitOn sep [] = [[]]"
| "splitOn sep (c # cs) =
     (if c = sep then [] # splitOn sep cs
      else case splitOn sep cs of x # xs \<Rightarrow> (c # x) # xs | [] \<Rightarrow> [[c]])"

fun stringsJoin :: "string list \<Rightarrow> string \<Rightarrow> string" where
  "stringsJoin [] sep = []"
| "stringsJoin [x] sep = x"
| "stringsJoin (x # y # ys) sep = x @ sep @ stringsJoin (y # ys) sep"

definition cleanStep :: "bool \<Rightarrow> string list \<Rightarrow> string \<Rightarrow> string list" where
  "cleanStep rooted st c =
     (if c = [] \<or> c = ''.'' then st
      else if c = ''..'' then
        (case st of
           prev # st' \<Rightarrow> if prev = ''..'' then c # st else st'
         | [] \<Rightarrow> if rooted then [] else [c])
      else c # st)"

definition filepathClean :: "string \<Rightarrow> string" where
  "filepathClean p =
     (let rooted = (p \<noteq> [] \<and> hd p = CHR ''/'');
          st = foldl (cleanStep rooted) [] (splitOn (CHR ''/'') p);
          out = (if rooted then ''/'' else []) @ stringsJoin (rev st) ''/''
      in if out = [] then ''.'' else out)"

definition filepathJoin :: "string list \<Rightarrow> string" where
  "filepathJoin elem =
     (case dropWhile (\<lambda>e. e = []) elem of
        [] \<Rightarrow> []
      | e # es \<Rightarrow> filepathClean (stringsJoin (e # es) ''/''))"

subsection \<open>The operating system\<close>

text \<open>
  A command as \<^verbatim>\<open>os/exec\<close> is asked to run it: the argument vector (program first), the
  working directory (empty: the caller's), the environment (\<open>None\<close>: inherited), what
  its output is attached to, and the deadline of its context in nanoseconds (\<open>None\<close> for
  a command made by \<^verbatim>\<open>exec.Command\<close>, which has none).
\<close>

datatype stdio = DevNull | StdoutCaptured | Buffered | Piped

record proc =
  cmdArgs :: "string list"
  cmdDir :: string
  cmdEnv :: "string list option"
  cmdStdio :: stdio
  cmdDeadline :: "int option"

datatype call = ExecCall proc | LookPathCall string

text \<open>
  The state of the running process that the file reads and writes: its environment
  variables, the external commands and look-ups it has made so far, and the lines printed
  on its own standard output.
\<close>

record world =
  environ :: "(string \<times> string) list"
  invoked :: "call list"
  console :: "string list"

datatype ctxerror = Canceled | DeadlineExceeded

text \<open>
  What one run of a command does, seen from the caller: the error of \<^verbatim>\<open>Start\<close>, the
  error of \<^verbatim>\<open>Wait\<close>, the bytes written to standard output and standard error by the
  time the caller gets control back, the value of \<^verbatim>\<open>ctx.Err()\<close> at that time (for a
  command under a deadline), and the lines that the forwarding goroutines of streaming
  mode have printed by then.
\<close>

record behaviour =
  startErr :: "goerror option"
  waitErr :: "goerror option"
  outBytes :: string
  errBytes :: string
  ctxErr :: "ctxerror option"
  forwardedLines :: "string list"

text \<open>
  The answers of the operating system, which may depend on everything done so far:
  \<^verbatim>\<open>os.Stat\<close> (its error), \<^verbatim>\<open>exec.LookPath\<close> and the run of a command.
\<close>

record sys =
  osStat :: "world \<Rightarrow> string \<Rightarrow> goerror option"
  execLookPath :: "world \<Rightarrow> string \<Rightarrow> goerror + string"
  process :: "world \<Rightarrow> proc \<Rightarrow> behaviour"

text \<open>\<^verbatim>\<open>cmd.Run()\<close> is \<^verbatim>\<open>Start\<close> followed, when it succeeds, by \<^verbatim>\<open>Wait\<close>.\<close>

definition cmdRun :: "behaviour \<Rightarrow> goerror option" where
  "cmdRun b = (case startErr b of Some e \<Rightarrow> Some e | None \<Rightarrow> waitErr b)"

definition logCall :: "call \<Rightarrow> world \<Rightarrow> world" where
  "logCall c w = w\<lparr>invoked := invoked w @ [c]\<rparr>"

text \<open>
  \<^verbatim>\<open>os.LookupEnv\<close>, \<^verbatim>\<open>os.Setenv\<close> (which refuses a value with a NUL byte; the file
  ignores its error) and \<^verbatim>\<open>os.Environ\<close>.
\<close>

definition osLookupEnv :: "world \<Rightarrow> string \<Rightarrow> string option" where
  "osLookupEnv w k = map_of (environ w) k"

fun setVar :: "string \<Rightarrow> string \<Rightarrow> (string \<times> string) list \<Rightarrow> (string \<times> string) list" where
  "setVar k v [] = [(k, v)]"
| "setVar k v (p # ps) = (if fst p = k then (k, v) # ps else p # setVar k v ps)"

definition osSetenv :: "world \<Rightarrow> string \<Rightarrow> string \<Rightarrow> world" where
  "osSetenv w k v =
     (if k = [] \<or> CHR ''='' \<in> set k \<or> CHR 0x00 \<in> set k \<or> CHR 0x00 \<in> set v then w
      else w\<lparr>environ := setVar k v (environ w)\<rparr>)"

definition osEnviron :: "world \<Rightarrow> string list" where
  "osEnviron w = map (\<lambda>(k, v). k @ ''='' @ v) (environ w)"

subsection \<open>The environment provisioner\<close>

record VenvConfig =
  Path :: string
  Python :: string

text \<open>
  \<^verbatim>\<open>getPythonVersion\<close>. Logging (\<^verbatim>\<open>failedCommandLogger\<close>, \<^verbatim>\<open>logrus\<close>) has no part in
  any result and is left out, here and below.
\<close>

definition parseVersion :: "string \<Rightarrow> (int \<times> int \<times> goerror option) outcome" where
  "parseVersion output =
     (let matches = FindStringSubmatch output
      in case index matches 1 of
           Panics p \<Rightarrow> Panics p
         | Returns m1 \<Rightarrow>
             (case Atoi m1 of
                Inl err \<Rightarrow>
                  Returns (- 1, - 1, errorsWrap (Some err) ''Unable to parse Python Major version.'')
              | Inr majorVersion \<Rightarrow>
                  (case index matches 2 of
                     Panics p \<Rightarrow> Panics p
                   | Returns m2 \<Rightarrow>
                       (case Atoi m2 of
                          Inl err \<Rightarrow>
                            Returns (- 1, 1, errorsWrap (Some err) ''Unable to parse Python Minor version.'')
                        | Inr minorVersion \<Rightarrow> Returns (majorVersion, minorVersion, None)))))"

definition getPythonVersion ::
  "sys \<Rightarrow> world \<Rightarrow> string \<Rightarrow> (int \<times> int \<times> goerror option) outcome \<times> world" where
  "getPythonVersion s w interpreter =
     (let cmd = \<lparr>cmdArgs = [interpreter, ''--version''], cmdDir = [], cmdEnv = None,
                 cmdStdio = StdoutCaptured, cmdDeadline = None\<rparr>;
          b = process s w cmd;
          w' = logCall (ExecCall cmd) w
      in case cmdRun b of
           Some err \<Rightarrow>
             (Returns (- 1, - 1, errorsWrap (Some err) ''Unable to determine Python version.''), w')
         | None \<Rightarrow> (parseVersion (outBytes b), w'))"

definition makeVenvViaModule :: "sys \<Rightarrow> world \<Rightarrow> VenvConfig \<Rightarrow> goerror option \<times> world" where
  "makeVenvViaModule s w cfg =
     (let cmd = \<lparr>cmdArgs = [Python cfg, ''-m'', ''venv'', Path cfg], cmdDir = [], cmdEnv = None,
                 cmdStdio = DevNull, cmdDeadline = None\<rparr>
      in (cmdRun (process s w cmd), logCall (ExecCall cmd) w))"

definition makeVenvLegacy :: "sys \<Rightarrow> world \<Rightarrow> VenvConfig \<Rightarrow> goerror option \<times> world" where
  "makeVenvLegacy s w cfg =
     (let w1 = logCall (LookPathCall ''virtualenv'') w
      in case execLookPath s w ''virtualenv'' of
           Inl err \<Rightarrow> (errorsWrap (Some err) ''virtualenv not found in path'', w1)
         | Inr venvExecutable \<Rightarrow>
             let cmd = \<lparr>cmdArgs = [venvExecutable, ''--python'', Python cfg, Path cfg],
                        cmdDir = [], cmdEnv = None, cmdStdio = DevNull, cmdDeadline = None\<rparr>
             in (cmdRun (process s w1 cmd), logCall (ExecCall cmd) w1))"

definition makeVenv :: "sys \<Rightarrow> world \<Rightarrow> VenvConfig \<Rightarrow> goerror option outcome \<times> world" where
  "makeVenv s w cfg =
     (case getPythonVersion s w (Python cfg) of
        (Panics p, w1) \<Rightarrow> (Panics p, w1)
      | (Returns (majorV, minorV, err), w1) \<Rightarrow>
          if err \<noteq> None then
            (Returns (errorsWrap err ''Unable to determine python version for specified interpreter.''), w1)
          else
            let (err', w2) = (if majorV \<ge> 3 \<and> minorV \<ge> 3 then makeVenvViaModule s w1 cfg
                              else makeVenvLegacy s w1 cfg)
            in if err' \<noteq> None then
                 (Returns (errorsWrap err' ''unable to create virtual environment''), w2)
               else (Returns None, w2))"

definition Ensure :: "sys \<Rightarrow> world \<Rightarrow> VenvConfig \<Rightarrow> goerror option outcome \<times> world" where
  "Ensure s w c =
     (let err = osStat s w (Path c)
      in if osIsNotExist err then
           (case makeVenv s w c of
              (Panics p, w') \<Rightarrow> (Panics p, w')
            | (Returns err', w') \<Rightarrow>
                if err' \<noteq> None then (Returns err', w') else (Returns None, w'))
         else (Returns None, w))"

subsection \<open>The command runner\<close>

record VenvCommand =
  Config :: VenvConfig
  Binary :: string
  Args :: "string list"
  Cwd :: string
  Env :: "string list"
  StreamOutput :: bool

record VenvCommandRunOutput =
  Stdout :: string
  Stderr :: string
  Error :: "goerror option"
  Exitcode :: int

text \<open>The deadline of every command: \<^verbatim>\<open>2 * time.Hour\<close>, in nanoseconds.\<close>

definition venvCommandTimeout :: int where
  "venvCommandTimeout = 2 * (60 * (60 * 1000000000))"

text \<open>
  The parts of \<^verbatim>\<open>VenvCommand.Run\<close> before the process starts: putting the
  environment's \<^verbatim>\<open>bin\<close> directory in front of \<^verbatim>\<open>PATH\<close> unless \<^verbatim>\<open>PATH\<close> contains
  it already, and building the command.
\<close>

definition withVenvPath :: "world \<Rightarrow> VenvCommand \<Rightarrow> string \<Rightarrow> world" where
  "withVenvPath w c path =
     (let venvPath = filepathJoin [Path (Config c), ''bin'']
      in if \<not> stringsContains path venvPath
         then osSetenv w ''PATH'' (filepathJoin [Path (Config c), ''bin''] @ '':'' @ path)
         else w)"

definition buildCmd :: "world \<Rightarrow> VenvCommand \<Rightarrow> proc" where
  "buildCmd w c =
     \<lparr>cmdArgs = filepathJoin [Path (Config c), ''bin'', Binary c] # Args c,
      cmdDir = (if Cwd c \<noteq> [] then Cwd c else []),
      cmdEnv = Some (osEnviron w @ Env c),
      cmdStdio = (if StreamOutput c then Piped else Buffered),
      cmdDeadline = Some venvCommandTimeout\<rparr>"

text \<open>
  \<^verbatim>\<open>VenvCommand.Run\<close>. In streaming mode the two pipes are taken to be there (the
  file ignores the errors of \<^verbatim>\<open>StdoutPipe\<close> and \<^verbatim>\<open>StderrPipe\<close>), and the two
  goroutines only print what they read: their lines go to the console and never into the
  result. The method call
  \<^verbatim>\<open>exitError.ExitCode()\<close> after the unchecked type assertion reads through a nil
  pointer when the error of \<^verbatim>\<open>Wait\<close> is not an exit-status error: Go panics.
\<close>

definition Run :: "sys \<Rightarrow> world \<Rightarrow> VenvCommand \<Rightarrow> VenvCommandRunOutput outcome \<times> world" where
  "Run s w c =
     (let CommandOutput = \<lparr>Stdout = [], Stderr = [], Error = None, Exitcode = - 1\<rparr>
      in case osLookupEnv w ''PATH'' of
           None \<Rightarrow>
             (Returns (CommandOutput\<lparr>Error := errorsNew ''Unable to lookup the $PATH env variable''\<rparr>), w)
         | Some path \<Rightarrow>
             let w1 = withVenvPath w c path;
                 cmd = buildCmd w1 c;
                 b = process s w1 cmd;
                 w2 = logCall (ExecCall cmd) w1
             in if StreamOutput c then
                  (case startErr b of
                     Some err \<Rightarrow>
                       (Returns (CommandOutput\<lparr>Error := errorsWrap (Some err) ''unable to start command''\<rparr>), w2)
                   | None \<Rightarrow>
                       let w3 = w2\<lparr>console := console w2 @ forwardedLines b\<rparr>
                       in case waitErr b of
                            Some err \<Rightarrow>
                              (case asExitError err of
                                 None \<Rightarrow> (Panics NilDereference, w3)
                               | Some code \<Rightarrow>
                                   (Returns (CommandOutput\<lparr>Error := errorsWrap (Some err) ''unable to complete command'',
                                                            Exitcode := code\<rparr>), w3))
                          | None \<Rightarrow> (Returns (CommandOutput\<lparr>Exitcode := 0\<rparr>), w3))
                else
                  let err = cmdRun b;
                      CommandOutput = CommandOutput\<lparr>Stderr := errBytes b, Stdout := outBytes b\<rparr>
                  in if ctxErr b = Some DeadlineExceeded then
                       (Returns (CommandOutput\<lparr>Error := errorsWrap err ''Execution timed out''\<rparr>), w2)
                     else
                       (case err of
                          Some e \<Rightarrow>
                            (Returns (CommandOutput\<lparr>Exitcode := (case asExitError e of
                                                                     Some code \<Rightarrow> code
                                                                   | None \<Rightarrow> Exitcode CommandOutput),
                                                     Error := errorsWrap err ''unable to complete command''\<rparr>), w2)
                        | None \<Rightarrow> (Returns (CommandOutput\<lparr>Exitcode := 0\<rparr>), w2)))"

text \<open>
  The behaviour of the process that \<open>Run\<close> starts for \<open>c\<close> in a world whose \<^verbatim>\<open>PATH\<close>
  is \<open>path\<close>: the name under which the theorems speak of it.
\<close>

definition started :: "sys \<Rightarrow> world \<Rightarrow> VenvCommand \<Rightarrow> string \<Rightarrow> behaviour" where
  "started s w c path = process s (withVenvPath w c path) (buildCmd (withVenvPath w c path) c)"

definition Update :: "sys \<Rightarrow> world \<Rightarrow> VenvConfig \<Rightarrow> string \<Rightarrow> goerror option outcome \<times> world" where
  "Update s w c requirementsFile =
     (let vCmd = \<lparr>Config = c, Binary = ''pip'', Args = [''install'', ''-r'', requirementsFile],
                  Cwd = [], Env = [], StreamOutput = False\<rparr>
      in case Run s w vCmd of
           (Panics p, w') \<Rightarrow> (Panics p, w')
         | (Returns venvCommandOutput, w') \<Rightarrow>
             if Error venvCommandOutput \<noteq> None then
               (Returns (errorsWrap (Error venvCommandOutput) ''unable to update virtualenv''), w')
             else (Returns None, w'))"

subsection \<open>A concrete machine\<close>

text \<open>
  A small system on which the functions can be run: every path exists or not as
  \<open>st\<close> says, every look-up on the search path answers \<^verbatim>\<open>/usr/bin\<close>, and every
  command behaves as \<open>b\<close>.
\<close>

definition exampleSys :: "goerror option \<Rightarrow> behaviour \<Rightarrow> sys" where
  "exampleSys st b =
     \<lparr>osStat = (\<lambda>w p. st),
      execLookPath = (\<lambda>w name. Inr (''/usr/bin/'' @ name)),
      process = (\<lambda>w p. b)\<rparr>"

definition exampleWorld :: world where
  "exampleWorld = \<lparr>environ = [(''PATH'', ''/usr/bin:/bin'')], invoked = [], console = []\<rparr>"

definition exampleConfig :: VenvConfig where
  "exampleConfig = \<lparr>Path = ''/opt/venv'', Python = ''/usr/bin/python3''\<rparr>"

definition exampleCommand :: "bool \<Rightarrow> VenvCommand" where
  "exampleCommand stream =
     \<lparr>Config = exampleConfig, Binary = ''ansible-playbook'', Args = [''site.yml''],
      Cwd = [], Env = [], StreamOutput = stream\<rparr>"

definition behaves ::
  "goerror option \<Rightarrow> goerror option \<Rightarrow> string \<Rightarrow> string \<Rightarrow> ctxerror option \<Rightarrow> behaviour" where
  "behaves se we out err cx =
     \<lparr>startErr = se, waitErr = we, outBytes = out, errBytes = err, ctxErr = cx,
      forwardedLines = []\<rparr>"

section \<open>Properties\<close>

subsection \<open>What \<open>Run\<close> returns, mode by mode\<close>

lemma Run_streaming:
  assumes "osLookupEnv w ''PATH'' = Some path" and "StreamOutput c"
  shows "fst (Run s w c) =
     (case startErr (started s w c path) of
        Some err \<Rightarrow>
          Returns \<lparr>Stdout = [], Stderr = [],
                   Error = Some (WithMessage err ''unable to start command''), Exitcode = - 1\<rparr>
      | None \<Rightarrow>
          (case waitErr (started s w c path) of
             Some err \<Rightarrow>
               (case asExitError err of
                  None \<Rightarrow> Panics NilDereference
                | Some code \<Rightarrow>
                    Returns \<lparr>Stdout = [], Stderr = [],
                             Error = Some (WithMessage err ''unable to complete command''),
                             Exitcode = code\<rparr>)
           | None \<Rightarrow> Returns \<lparr>Stdout = [], Stderr = [], Error = None, Exitcode = 0\<rparr>))"
  using assms
  by (simp add: Run_def started_def Let_def split: option.splits)

lemma Run_buffered:
  assumes "osLookupEnv w ''PATH'' = Some path" and "\<not> StreamOutput c"
  shows "fst (Run s w c) =
     Returns \<lparr>Stdout = outBytes (started s w c path), Stderr = errBytes (started s w c path),
              Error = (if ctxErr (started s w c path) = Some DeadlineExceeded
                       then errorsWrap (cmdRun (started s w c path)) ''Execution timed out''
                       else errorsWrap (cmdRun (started s w c path)) ''unable to complete command''),
              Exitcode = (if ctxErr (started s w c path) = Some DeadlineExceeded then - 1
                          else case cmdRun (started s w c path) of
                                 None \<Rightarrow> 0
                               | Some e \<Rightarrow> (case asExitError e of Some code \<Rightarrow> code | None \<Rightarrow> - 1))\<rparr>"
  using assms
  by (simp add: Run_def started_def Let_def split: option.splits)

lemma Run_no_PATH:
  assumes "osLookupEnv w ''PATH'' = None"
  shows "Run s w c =
     (Returns \<lparr>Stdout = [], Stderr = [],
               Error = Some (Fundamental ''Unable to lookup the $PATH env variable''),
               Exitcode = - 1\<rparr>, w)"
  using assms by (simp add: Run_def errorsNew_def)

lemma Run_invoked:
  assumes "osLookupEnv w ''PATH'' = Some path"
  shows "invoked (snd (Run s w c)) =
           invoked (withVenvPath w c path) @ [ExecCall (buildCmd (withVenvPath w c path) c)]"
  using assms
  by (simp add: Run_def Let_def logCall_def split: option.splits)

lemma example_PATH: "osLookupEnv exampleWorld ''PATH'' = Some ''/usr/bin:/bin''"
  by (simp add: osLookupEnv_def exampleWorld_def)

lemma example_started: "started (exampleSys st b) w c path = b"
  by (simp add: started_def exampleSys_def)

lemma kinds:
  "kindOfMessage ''unable to start command'' = Some StartError"
  "kindOfMessage ''Execution timed out'' = Some TimeoutError"
  "kindOfMessage ''unable to complete command'' = Some ExecutionFailedError"
  "kindOfMessage ''unable to update virtualenv'' = Some UpdateError"
  "kindOfMessage ''Unable to lookup the $PATH env variable'' = Some EnvironmentLookupError"
  by (simp_all add: kindOfMessage_def)

lemma Run_buffered_returns:
  assumes "\<not> StreamOutput c"
  shows "\<exists>out. fst (Run s w c) = Returns out"
proof (cases "osLookupEnv w ''PATH''")
  case None
  then show ?thesis by (simp add: Run_no_PATH)
next
  case (Some path)
  with assms show ?thesis by (simp add: Run_buffered)
qed

lemma withVenvPath_invoked: "invoked (withVenvPath w c path) = invoked w"
  by (simp add: withVenvPath_def osSetenv_def Let_def)

text \<open>
  Two consequences for streaming mode, which never reads \<^verbatim>\<open>ctx.Err()\<close>: an exit
  status is reported as the generic failure whether or not the deadline fired, and any
  other error of the wait is a panic. And one for buffered mode: \<^verbatim>\<open>errors.Wrap\<close> of nil
  is nil, so a deadline that fires once the process has completed without error leaves
  the result without an error, its exit code still \<open>-1\<close>.
\<close>

lemma Run_streaming_ignores_deadline:
  assumes "osLookupEnv w ''PATH'' = Some path" and "StreamOutput c"
    and "startErr (started s w c path) = None"
    and "waitErr (started s w c path) = Some (ExitError n)"
  shows "fst (Run s w c) =
           Returns \<lparr>Stdout = [], Stderr = [],
                    Error = Some (WithMessage (ExitError n) ''unable to complete command''),
                    Exitcode = n\<rparr>"
  using assms by (simp add: Run_streaming)

lemma Run_streaming_panics:
  assumes "osLookupEnv w ''PATH'' = Some path" and "StreamOutput c"
    and "startErr (started s w c path) = None"
    and "waitErr (started s w c path) = Some e" and "asExitError e = None"
  shows "fst (Run s w c) = Panics NilDereference"
  using assms by (simp add: Run_streaming)

lemma Run_buffered_deadline_without_error:
  assumes "osLookupEnv w ''PATH'' = Some path" and "\<not> StreamOutput c"
    and "ctxErr (started s w c path) = Some DeadlineExceeded"
    and "cmdRun (started s w c path) = None"
  shows "fst (Run s w c) =
           Returns \<lparr>Stdout = outBytes (started s w c path), Stderr = errBytes (started s w c path),
                    Error = None, Exitcode = - 1\<rparr>"
  using assms by (simp add: Run_buffered)

subsection \<open>Version detection\<close>

text \<open>
  Digits, \<^verbatim>\<open>Atoi\<close> and the pattern on a well-formed version line: the line
  \<^verbatim>\<open>Python d.ds\<close> followed by anything that does not start with a digit (nothing, a
  newline, a patch level) gives \<open>(d, ds)\<close>, unless \<open>ds\<close> does not fit in an \<^verbatim>\<open>int\<close>.
\<close>

lemma isDigit_not_sign: "isDigit c \<Longrightarrow> c \<noteq> CHR ''-'' \<and> c \<noteq> CHR ''+''"
  by (auto simp add: isDigit_def)

lemma digitVal_range: "isDigit c \<Longrightarrow> 0 \<le> digitVal c \<and> digitVal c \<le> 9"
  by (auto simp add: isDigit_def digitVal_def)

lemma foldl_decimal_nonneg:
  "list_all isDigit ds \<Longrightarrow> 0 \<le> n \<Longrightarrow> 0 \<le> foldl (\<lambda>n c. 10 * n + digitVal c) n ds"
proof (induction ds arbitrary: n)
  case Nil
  then show ?case by simp
next
  case (Cons c ds)
  then have "0 \<le> 10 * n + digitVal c"
    using digitVal_range [of c] by simp
  with Cons show ?case by simp
qed

lemma decimal_nonneg: "list_all isDigit ds \<Longrightarrow> 0 \<le> decimal ds"
  by (simp add: decimal_def foldl_decimal_nonneg)

lemma Atoi_digits:
  assumes "ds \<noteq> []" and "list_all isDigit ds" and "decimal ds \<le> 2 ^ 63 - 1"
  shows "Atoi ds = Inr (decimal ds)"
proof -
  from assms obtain c cs where ds: "ds = c # cs" by (cases ds) auto
  with assms have "isDigit c" by simp
  then have sign: "hd ds \<noteq> CHR ''-''" "hd ds \<noteq> CHR ''+''"
    using isDigit_not_sign ds by auto
  from decimal_nonneg [OF assms(2)] assms(3)
  have "\<not> (decimal ds < - (2 ^ 63) \<or> 2 ^ 63 - 1 < decimal ds)" by simp
  with assms sign show ?thesis
    by (simp add: Atoi_def Let_def)
qed

lemma Atoi_digit: "isDigit d \<Longrightarrow> Atoi [d] = Inr (digitVal d)"
  using Atoi_digits [of "[d]"] digitVal_range [of d]
  by (simp add: decimal_def)

lemma takeWhile_digits:
  assumes "list_all isDigit ds" and "rest = [] \<or> \<not> isDigit (hd rest)"
  shows "takeWhile isDigit (ds @ rest) = ds" and "dropWhile isDigit (ds @ rest) = rest"
proof -
  from assms(2) have t: "takeWhile isDigit rest = []" and d: "dropWhile isDigit rest = rest"
    by (cases rest; auto)+
  from assms(1) have all: "\<And>x. x \<in> set ds \<Longrightarrow> isDigit x"
    by (simp add: list_all_iff)
  show "takeWhile isDigit (ds @ rest) = ds"
    using all t by simp
  show "dropWhile isDigit (ds @ rest) = rest"
    using all d by simp
qed

lemma matchHere_version:
  assumes "isDigit d" and "ds \<noteq> []" and "list_all isDigit ds"
    and "rest = [] \<or> \<not> isDigit (hd rest)"
  shows "matchHere (''Python '' @ d # CHR ''.'' # ds @ rest) =
           Some [''Python '' @ d # CHR ''.'' # ds @ patchGroup rest, [d], ds, patchGroup rest]"
  using assms takeWhile_digits [OF assms(3,4)]
  by (simp add: matchHere_def runeLen_def Let_def)

lemma FindStringSubmatch_hit: "matchHere s = Some m \<Longrightarrow> FindStringSubmatch s = m"
  by (cases s) (simp_all add: matchHere_def)

lemma FindStringSubmatch_version:
  assumes "isDigit d" and "ds \<noteq> []" and "list_all isDigit ds"
    and "rest = [] \<or> \<not> isDigit (hd rest)"
  shows "FindStringSubmatch (''Python '' @ d # CHR ''.'' # ds @ rest) =
           [''Python '' @ d # CHR ''.'' # ds @ patchGroup rest, [d], ds, patchGroup rest]"
  by (rule FindStringSubmatch_hit [OF matchHere_version [OF assms]])

lemma parseVersion_version:
  assumes "isDigit d" and "ds \<noteq> []" and "list_all isDigit ds"
    and "rest = [] \<or> \<not> isDigit (hd rest)"
    and "decimal ds \<le> 2 ^ 63 - 1"
  shows "parseVersion (''Python '' @ d # CHR ''.'' # ds @ rest) = Returns (digitVal d, decimal ds, None)"
  by (simp only: parseVersion_def FindStringSubmatch_version [OF assms(1-4)] Let_def)
     (simp add: index_def Atoi_digit [OF assms(1)] Atoi_digits [OF assms(2,3,5)])

lemma parseVersion_minor_out_of_range:
  assumes "isDigit d" and "ds \<noteq> []" and "list_all isDigit ds"
    and "rest = [] \<or> \<not> isDigit (hd rest)"
    and "2 ^ 63 - 1 < decimal ds"
  shows "parseVersion (''Python '' @ d # CHR ''.'' # ds @ rest) =
           Returns (- 1, 1, Some (WithMessage (NumError ds ErrRange) ''Unable to parse Python Minor version.''))"
proof -
  from assms obtain c cs where ds: "ds = c # cs" by (cases ds) auto
  with assms have "isDigit c" by simp
  then have sign: "hd ds \<noteq> CHR ''-''" "hd ds \<noteq> CHR ''+''"
    using isDigit_not_sign ds by auto
  with assms have "Atoi ds = Inl (NumError ds ErrRange)"
    by (simp add: Atoi_def Let_def)
  then show ?thesis
    by (simp only: parseVersion_def FindStringSubmatch_version [OF assms(1-4)] Let_def)
       (simp add: index_def Atoi_digit [OF assms(1)])
qed

lemma example_version: "parseVersion ''Python 3.7.2'' = Returns (3, 7, None)"
  by code_simp

lemma parseVersion_no_match:
  "FindStringSubmatch output = [] \<Longrightarrow> parseVersion output = Panics (IndexOutOfRange 1 0)"
  by (simp add: parseVersion_def index_def)

lemma getPythonVersion_version:
  assumes "cmdRun (process s w \<lparr>cmdArgs = [interpreter, ''--version''], cmdDir = [], cmdEnv = None,
                                cmdStdio = StdoutCaptured, cmdDeadline = None\<rparr>) = None"
    and "outBytes (process s w \<lparr>cmdArgs = [interpreter, ''--version''], cmdDir = [], cmdEnv = None,
                                 cmdStdio = StdoutCaptured, cmdDeadline = None\<rparr>)
           = ''Python '' @ d # CHR ''.'' # ds @ rest"
    and "isDigit d" and "ds \<noteq> []" and "list_all isDigit ds"
    and "rest = [] \<or> \<not> isDigit (hd rest)"
    and "decimal ds \<le> 2 ^ 63 - 1"
  shows "fst (getPythonVersion s w interpreter) = Returns (digitVal d, decimal ds, None)"
  using assms(1,2) parseVersion_version [OF assms(3-7)]
  by (simp add: getPythonVersion_def Let_def)

text \<open>
  C1. The claim: an interpreter whose version output matches \<^verbatim>\<open>Python X.Y\<close> or
  \<^verbatim>\<open>Python X.Y.Z\<close> gives exactly \<open>(X, Y)\<close>, and output that does not match the pattern
  gives a parse error instead of a crash. The first half is \<open>getPythonVersion_version\<close>.
  The code does not do the second half: when the pattern matches nowhere,
  \<^verbatim>\<open>FindStringSubmatch\<close> returns nil and \<^verbatim>\<open>matches[1]\<close> is out of range. Here the
  interpreter runs without error and prints nothing on standard output (its version line
  goes to standard error): the function panics.
\<close>

theorem getPythonVersion_unmatched_output_panics:
  "fst (getPythonVersion (exampleSys None (behaves None None [] ''Python 2.7.18'' None))
          exampleWorld ''/usr/bin/python2'')
   = Panics (IndexOutOfRange 1 0)"
  by (simp add: getPythonVersion_def exampleSys_def behaves_def cmdRun_def parseVersion_no_match)

subsection \<open>Creating the environment\<close>

lemma makeVenvViaModule_invoked:
  "invoked (snd (makeVenvViaModule s w cfg)) =
     invoked w @ [ExecCall \<lparr>cmdArgs = [Python cfg, ''-m'', ''venv'', Path cfg], cmdDir = [],
                            cmdEnv = None, cmdStdio = DevNull, cmdDeadline = None\<rparr>]"
  by (simp add: makeVenvViaModule_def logCall_def Let_def)

lemma makeVenvLegacy_invoked:
  "invoked (snd (makeVenvLegacy s w cfg)) =
     invoked w @ LookPathCall ''virtualenv'' #
       (case execLookPath s w ''virtualenv'' of
          Inl err \<Rightarrow> []
        | Inr venvExecutable \<Rightarrow>
            [ExecCall \<lparr>cmdArgs = [venvExecutable, ''--python'', Python cfg, Path cfg], cmdDir = [],
                       cmdEnv = None, cmdStdio = DevNull, cmdDeadline = None\<rparr>])"
  by (simp add: makeVenvLegacy_def logCall_def Let_def split: sum.splits)

lemma makeVenv_detected:
  assumes "getPythonVersion s w (Python cfg) = (Returns (majorV, minorV, None), w1)"
  shows "makeVenv s w cfg =
           (if 3 \<le> majorV \<and> 3 \<le> minorV
            then (Returns (errorsWrap (fst (makeVenvViaModule s w1 cfg)) ''unable to create virtual environment''),
                  snd (makeVenvViaModule s w1 cfg))
            else (Returns (errorsWrap (fst (makeVenvLegacy s w1 cfg)) ''unable to create virtual environment''),
                  snd (makeVenvLegacy s w1 cfg)))"
proof -
  have wrap: "(if err \<noteq> None then (Returns (errorsWrap err m), w2) else (Returns None, w2))
                = (Returns (errorsWrap err m), w2)" for err :: "goerror option" and m and w2 :: world
    by (cases err) simp_all
  show ?thesis
    using assms by (simp add: makeVenv_def Let_def wrap split: prod.splits)
qed

text \<open>
  C6. Once the version \<open>(majorV, minorV)\<close> is detected, \<open>makeVenv\<close> takes the module
  strategy (the interpreter run with \<^verbatim>\<open>-m venv\<close>) exactly when \<open>majorV \<ge> 3\<close> and
  \<open>minorV \<ge> 3\<close>, and the legacy strategy (\<^verbatim>\<open>virtualenv\<close> looked up on the search path)
  otherwise: so the module strategy for major 3 and minor 3 to 9, and the legacy strategy
  for major 2 with any minor.
\<close>

theorem makeVenv_strategy_selection:
  assumes "getPythonVersion s w (Python cfg) = (Returns (majorV, minorV, None), w1)"
  shows "(3 \<le> majorV \<and> 3 \<le> minorV \<longrightarrow>
            snd (makeVenv s w cfg) = snd (makeVenvViaModule s w1 cfg)
            \<and> invoked (snd (makeVenv s w cfg)) =
                invoked w1 @ [ExecCall \<lparr>cmdArgs = [Python cfg, ''-m'', ''venv'', Path cfg], cmdDir = [],
                                        cmdEnv = None, cmdStdio = DevNull, cmdDeadline = None\<rparr>])
       \<and> (\<not> (3 \<le> majorV \<and> 3 \<le> minorV) \<longrightarrow>
            snd (makeVenv s w cfg) = snd (makeVenvLegacy s w1 cfg)
            \<and> (\<exists>rest. invoked (snd (makeVenv s w cfg)) = invoked w1 @ LookPathCall ''virtualenv'' # rest))
       \<and> (majorV = 3 \<and> 3 \<le> minorV \<and> minorV \<le> 9 \<longrightarrow>
            snd (makeVenv s w cfg) = snd (makeVenvViaModule s w1 cfg))
       \<and> (majorV = 2 \<longrightarrow> snd (makeVenv s w cfg) = snd (makeVenvLegacy s w1 cfg))"
proof -
  have module: "snd (makeVenv s w cfg) = snd (makeVenvViaModule s w1 cfg)"
    if "3 \<le> majorV \<and> 3 \<le> minorV"
    using that by (simp add: makeVenv_detected [OF assms])
  have legacy: "snd (makeVenv s w cfg) = snd (makeVenvLegacy s w1 cfg)"
    if "\<not> (3 \<le> majorV \<and> 3 \<le> minorV)"
    using that by (auto simp add: makeVenv_detected [OF assms])
  show ?thesis
    using module legacy
    by (auto simp add: makeVenvViaModule_invoked makeVenvLegacy_invoked)
qed

theorem makeVenv_strategy_selection_witness:
  "getPythonVersion (exampleSys (Some (NotExistError ''stat'')) (behaves None None ''Python 3.7.2'' [] None))
      exampleWorld (Python exampleConfig)
     = (Returns (3, 7, None),
        logCall (ExecCall \<lparr>cmdArgs = [''/usr/bin/python3'', ''--version''], cmdDir = [], cmdEnv = None,
                           cmdStdio = StdoutCaptured, cmdDeadline = None\<rparr>) exampleWorld)
   \<and> invoked (snd (makeVenv (exampleSys (Some (NotExistError ''stat'')) (behaves None None ''Python 3.7.2'' [] None))
                      exampleWorld exampleConfig))
     = [ExecCall \<lparr>cmdArgs = [''/usr/bin/python3'', ''--version''], cmdDir = [], cmdEnv = None,
                  cmdStdio = StdoutCaptured, cmdDeadline = None\<rparr>,
        ExecCall \<lparr>cmdArgs = [''/usr/bin/python3'', ''-m'', ''venv'', ''/opt/venv''], cmdDir = [],
                  cmdEnv = None, cmdStdio = DevNull, cmdDeadline = None\<rparr>]"
proof -
  let ?s = "exampleSys (Some (NotExistError ''stat'')) (behaves None None ''Python 3.7.2'' [] None)"
  let ?w1 = "logCall (ExecCall \<lparr>cmdArgs = [''/usr/bin/python3'', ''--version''], cmdDir = [], cmdEnv = None,
                           cmdStdio = StdoutCaptured, cmdDeadline = None\<rparr>) exampleWorld"
  have v: "getPythonVersion ?s exampleWorld (Python exampleConfig) = (Returns (3, 7, None), ?w1)"
    by (simp add: getPythonVersion_def exampleSys_def behaves_def cmdRun_def exampleConfig_def
        example_version Let_def)
  have w1: "invoked ?w1 = [ExecCall \<lparr>cmdArgs = [''/usr/bin/python3'', ''--version''], cmdDir = [], cmdEnv = None,
                  cmdStdio = StdoutCaptured, cmdDeadline = None\<rparr>]"
    by (simp add: logCall_def exampleWorld_def)
  have c: "(3::int) \<le> 3 \<and> (3::int) \<le> 7" by simp
  from makeVenv_strategy_selection [OF v] c
  have "invoked (snd (makeVenv ?s exampleWorld exampleConfig)) =
          invoked ?w1 @ [ExecCall \<lparr>cmdArgs = [Python exampleConfig, ''-m'', ''venv'', Path exampleConfig],
                                   cmdDir = [], cmdEnv = None, cmdStdio = DevNull, cmdDeadline = None\<rparr>]"
    by blast
  with v w1 show ?thesis
    by (simp add: exampleConfig_def)
qed

text \<open>The same machine with a Python 2 interpreter takes the legacy strategy.\<close>

lemma example_version_2: "parseVersion ''Python 2.7.18'' = Returns (2, 7, None)"
  by code_simp

lemma makeVenv_legacy_example:
  "invoked (snd (makeVenv (exampleSys (Some (NotExistError ''stat'')) (behaves None None ''Python 2.7.18'' [] None))
                   exampleWorld exampleConfig))
     = [ExecCall \<lparr>cmdArgs = [''/usr/bin/python3'', ''--version''], cmdDir = [], cmdEnv = None,
                  cmdStdio = StdoutCaptured, cmdDeadline = None\<rparr>,
        LookPathCall ''virtualenv'',
        ExecCall \<lparr>cmdArgs = [''/usr/bin/virtualenv'', ''--python'', ''/usr/bin/python3'', ''/opt/venv''],
                  cmdDir = [], cmdEnv = None, cmdStdio = DevNull, cmdDeadline = None\<rparr>]"
proof -
  let ?s = "exampleSys (Some (NotExistError ''stat'')) (behaves None None ''Python 2.7.18'' [] None)"
  let ?w1 = "logCall (ExecCall \<lparr>cmdArgs = [''/usr/bin/python3'', ''--version''], cmdDir = [], cmdEnv = None,
                           cmdStdio = StdoutCaptured, cmdDeadline = None\<rparr>) exampleWorld"
  have v: "getPythonVersion ?s exampleWorld (Python exampleConfig) = (Returns (2, 7, None), ?w1)"
    by (simp add: getPythonVersion_def exampleSys_def behaves_def cmdRun_def exampleConfig_def
        example_version_2 Let_def)
  show ?thesis
    by (simp add: makeVenv_detected [OF v] makeVenvLegacy_invoked)
       (simp add: exampleSys_def logCall_def exampleWorld_def exampleConfig_def)
qed

text \<open>
  C5. \<open>Ensure\<close> on a root path that exists (\<^verbatim>\<open>os.Stat\<close> returns no error) returns no
  error and leaves the world as it is: nothing is invoked, neither the version query nor
  a creation strategy, and a second call is the same no-op.
\<close>

theorem Ensure_existing_path_is_noop:
  assumes "osStat s w (Path c) = None"
  shows "Ensure s w c = (Returns None, w)
         \<and> invoked (snd (Ensure s w c)) = invoked w
         \<and> Ensure s (snd (Ensure s w c)) c = (Returns None, w)"
  using assms by (simp add: Ensure_def)

theorem Ensure_existing_path_is_noop_witness:
  "osStat (exampleSys None (behaves None None ''Python 3.7.2'' [] None)) exampleWorld (Path exampleConfig) = None
   \<and> Ensure (exampleSys None (behaves None None ''Python 3.7.2'' [] None)) exampleWorld exampleConfig
       = (Returns None, exampleWorld)"
proof -
  have st: "osStat (exampleSys None (behaves None None ''Python 3.7.2'' [] None)) exampleWorld (Path exampleConfig) = None"
    by (simp add: exampleSys_def)
  from Ensure_existing_path_is_noop [OF st] st show ?thesis by blast
qed

subsection \<open>Error classification of \<open>Run\<close>\<close>

text \<open>
  C2. The claim: in either mode, when the deadline fires before the process completes,
  the error is the timeout error and not the generic failure. Streaming mode never
  looks at the context: the killed process's exit-status error is wrapped as
  \<^verbatim>\<open>unable to complete command\<close>, the generic failure, although the deadline has fired.
\<close>

theorem Run_streaming_deadline_reported_as_failure:
  "fst (Run (exampleSys None (behaves None (Some (ExitError (- 1))) [] [] (Some DeadlineExceeded)))
          exampleWorld (exampleCommand True))
   = Returns \<lparr>Stdout = [], Stderr = [],
              Error = Some (WithMessage (ExitError (- 1)) ''unable to complete command''),
              Exitcode = - 1\<rparr>
   \<and> errorKind (Some (WithMessage (ExitError (- 1)) ''unable to complete command''))
       = Some ExecutionFailedError"
  by (simp add: Run_streaming [OF example_PATH] example_started exampleCommand_def behaves_def kinds)

text \<open>
  Buffered mode with the deadline (two hours) fired: an error \<open>e\<close> of the process layer
  comes back wrapped as \<^verbatim>\<open>Execution timed out\<close>, the timeout error and not the generic
  failure.
\<close>

lemma Run_buffered_deadline_with_error:
  assumes "osLookupEnv w ''PATH'' = Some path"
    and "\<not> StreamOutput c"
    and "ctxErr (started s w c path) = Some DeadlineExceeded"
    and "cmdRun (started s w c path) = Some e"
  shows "\<exists>r. fst (Run s w c) = Returns r
           \<and> Error r = Some (WithMessage e ''Execution timed out'')
           \<and> errorKind (Error r) = Some TimeoutError
           \<and> errorKind (Error r) \<noteq> Some ExecutionFailedError
           \<and> cmdDeadline (buildCmd (withVenvPath w c path) c) = Some (2 * 3600 * 10 ^ 9)"
  using assms
  by (simp add: Run_buffered kinds buildCmd_def venvCommandTimeout_def)

text \<open>
  C3. The claim: in buffered mode a command that runs past the deadline gives a result
  whose error is the timeout error, whatever the process layer reports. The code builds
  that error by \<^verbatim>\<open>errors.Wrap\<close> around \<^verbatim>\<open>err\<close>, which is nil when \<^verbatim>\<open>err\<close> is nil:
  when \<^verbatim>\<open>cmd.Run()\<close> reports no error and the deadline has fired, the result has no
  error at all, and the exit code of a process that never completed.
\<close>

theorem Run_buffered_deadline_gives_no_error:
  "fst (Run (exampleSys None (behaves None None ''partial'' [] (Some DeadlineExceeded)))
          exampleWorld (exampleCommand False))
   = Returns \<lparr>Stdout = ''partial'', Stderr = [], Error = None, Exitcode = - 1\<rparr>
   \<and> errorKind None \<noteq> Some TimeoutError"
  by (simp add: Run_buffered [OF example_PATH] example_started exampleCommand_def behaves_def
      cmdRun_def)

text \<open>
  A binary that does not exist, in both modes: the exit code stays \<open>-1\<close>; streaming mode,
  which starts and waits in two calls, reports the start error; buffered mode reports the
  generic failure (the timeout error if the deadline has fired).
\<close>

lemma Run_missing_binary:
  assumes "osLookupEnv w ''PATH'' = Some path"
    and "startErr (started s w c path) = Some (NotExistError m)"
  shows "\<exists>r. fst (Run s w c) = Returns r
           \<and> Exitcode r = - 1
           \<and> (StreamOutput c \<longrightarrow>
                Error r = Some (WithMessage (NotExistError m) ''unable to start command'')
                \<and> errorKind (Error r) = Some StartError)
           \<and> (\<not> StreamOutput c \<longrightarrow>
                Error r = Some (WithMessage (NotExistError m)
                                  (if ctxErr (started s w c path) = Some DeadlineExceeded
                                   then ''Execution timed out'' else ''unable to complete command''))
                \<and> errorKind (Error r) =
                    Some (if ctxErr (started s w c path) = Some DeadlineExceeded
                          then TimeoutError else ExecutionFailedError))"
proof (cases "StreamOutput c")
  case True
  with assms show ?thesis
    by (simp add: Run_streaming kinds)
next
  case False
  with assms show ?thesis
    by (simp add: Run_buffered kinds cmdRun_def)
qed

text \<open>
  C4. The claim: in either mode a binary that does not exist gives the start error,
  distinct from the generic failure, and exit code \<open>-1\<close>. Streaming mode does that.
  Buffered mode starts and waits in one call, \<^verbatim>\<open>cmd.Run()\<close>, and wraps its error as
  \<^verbatim>\<open>unable to complete command\<close> whatever it is: the failure to start comes back as the
  generic failure.
\<close>

theorem Run_buffered_missing_binary_reported_as_failure:
  "fst (Run (exampleSys None (behaves (Some (NotExistError ''no such file or directory'')) None [] [] None))
          exampleWorld (exampleCommand False))
   = Returns \<lparr>Stdout = [], Stderr = [],
              Error = Some (WithMessage (NotExistError ''no such file or directory'')
                              ''unable to complete command''),
              Exitcode = - 1\<rparr>
   \<and> errorKind (Some (WithMessage (NotExistError ''no such file or directory'')
                        ''unable to complete command'')) = Some ExecutionFailedError
   \<and> errorKind (Some (WithMessage (NotExistError ''no such file or directory'')
                        ''unable to complete command'')) \<noteq> Some StartError"
  by (simp add: Run_buffered [OF example_PATH] example_started exampleCommand_def behaves_def kinds
      cmdRun_def)

text \<open>
  C10. The claim: in streaming mode every error of the wait is an exit-status error, so
  the unchecked type assertion never yields nil and \<open>Run\<close> never panics on a wait
  failure. \<^verbatim>\<open>Wait\<close> may return other errors (its documentation says so, for I/O
  problems), and then the code calls \<^verbatim>\<open>ExitCode()\<close> through a nil pointer.
\<close>

theorem Run_streaming_wait_error_panics:
  "fst (Run (exampleSys None (behaves None (Some (OtherError ''wait: no child processes'')) [] [] None))
          exampleWorld (exampleCommand True))
   = Panics NilDereference"
  by (simp add: Run_streaming [OF example_PATH] example_started exampleCommand_def behaves_def)

subsection \<open>Captured output\<close>

text \<open>
  C8. In streaming mode \<open>Run\<close> either panics (on a wait error that is not an exit
  status) or returns a result whose \<open>Stdout\<close> and \<open>Stderr\<close> are empty, whatever the
  process wrote: only buffered mode fills them.
\<close>

theorem Run_streaming_result_has_no_output:
  assumes "StreamOutput c"
  shows "fst (Run s w c) = Panics NilDereference
         \<or> (\<exists>r. fst (Run s w c) = Returns r \<and> Stdout r = [] \<and> Stderr r = [])"
proof (cases "osLookupEnv w ''PATH''")
  case None
  then show ?thesis by (simp add: Run_no_PATH)
next
  case (Some path)
  with assms show ?thesis
    by (simp add: Run_streaming split: option.splits)
qed

theorem Run_streaming_result_has_no_output_witness:
  "StreamOutput (exampleCommand True)
   \<and> (\<exists>r. fst (Run (exampleSys None (behaves None None ''hello'' ''warning'' None))
                  exampleWorld (exampleCommand True)) = Returns r
          \<and> Stdout r = [] \<and> Stderr r = [] \<and> Exitcode r = 0)"
proof -
  have m: "StreamOutput (exampleCommand True)"
    by (simp add: exampleCommand_def)
  have "fst (Run (exampleSys None (behaves None None ''hello'' ''warning'' None))
               exampleWorld (exampleCommand True)) \<noteq> Panics NilDereference"
    by (simp add: Run_streaming [OF example_PATH m] example_started behaves_def)
  moreover have "\<And>r. fst (Run (exampleSys None (behaves None None ''hello'' ''warning'' None))
               exampleWorld (exampleCommand True)) = Returns r \<Longrightarrow> Exitcode r = 0"
    by (auto simp add: Run_streaming [OF example_PATH m] example_started behaves_def)
  ultimately show ?thesis
    using Run_streaming_result_has_no_output [OF m, of "exampleSys None (behaves None None ''hello'' ''warning'' None)" exampleWorld] m
    by blast
qed



subsection \<open>Installing requirements\<close>

text \<open>
  C7. \<open>Update\<close> runs \<^verbatim>\<open>pip\<close> through \<open>Run\<close> in buffered mode with exactly the arguments
  \<^verbatim>\<open>install -r requirementsFile\<close>, and returns the runner's error wrapped as
  \<^verbatim>\<open>unable to update virtualenv\<close> if the runner reports one, and no error otherwise.
\<close>

theorem Update_runs_pip_install:
  "\<exists>out w'.
     Run s w \<lparr>Config = c, Binary = ''pip'', Args = [''install'', ''-r'', requirementsFile],
              Cwd = [], Env = [], StreamOutput = False\<rparr> = (Returns out, w')
     \<and> Update s w c requirementsFile = (Returns (errorsWrap (Error out) ''unable to update virtualenv''), w')
     \<and> ((\<exists>e. fst (Update s w c requirementsFile) = Returns (Some e)) \<longleftrightarrow> Error out \<noteq> None)
     \<and> (\<forall>e. Error out = Some e \<longrightarrow>
            fst (Update s w c requirementsFile) = Returns (Some (WithMessage e ''unable to update virtualenv''))
            \<and> errorKind (Some (WithMessage e ''unable to update virtualenv'')) = Some UpdateError)
     \<and> (osLookupEnv w ''PATH'' \<noteq> None \<longrightarrow>
          (\<exists>p. invoked w' = invoked w @ [ExecCall p]
              \<and> cmdArgs p = [filepathJoin [Path c, ''bin'', ''pip''], ''install'', ''-r'', requirementsFile]
              \<and> cmdStdio p = Buffered))"
proof -
  let ?v = "\<lparr>Config = c, Binary = ''pip'', Args = [''install'', ''-r'', requirementsFile],
             Cwd = [], Env = [], StreamOutput = False\<rparr>"
  obtain out w' where run: "Run s w ?v = (Returns out, w')"
    using Run_buffered_returns [of ?v s w] by (cases "Run s w ?v") auto
  have upd: "Update s w c requirementsFile =
               (Returns (errorsWrap (Error out) ''unable to update virtualenv''), w')"
    using run by (cases "Error out") (simp_all add: Update_def)
  have log: "\<exists>p. invoked w' = invoked w @ [ExecCall p]
              \<and> cmdArgs p = [filepathJoin [Path c, ''bin'', ''pip''], ''install'', ''-r'', requirementsFile]
              \<and> cmdStdio p = Buffered"
    if "osLookupEnv w ''PATH'' \<noteq> None"
  proof -
    from that obtain path where "osLookupEnv w ''PATH'' = Some path" by auto
    from Run_invoked [OF this, of s ?v] run show ?thesis
      by (simp add: withVenvPath_invoked buildCmd_def)
  qed
  show ?thesis
    using run upd log by (cases "Error out") (auto simp add: kinds)
qed

theorem Update_runs_pip_install_witness:
  "osLookupEnv exampleWorld ''PATH'' \<noteq> None
   \<and> (\<exists>out w'.
        Run (exampleSys None (behaves None (Some (ExitError 1)) [] ''No matching distribution'' None)) exampleWorld
          \<lparr>Config = exampleConfig, Binary = ''pip'', Args = [''install'', ''-r'', ''requirements.txt''],
           Cwd = [], Env = [], StreamOutput = False\<rparr> = (Returns out, w')
        \<and> Error out = Some (WithMessage (ExitError 1) ''unable to complete command'')
        \<and> fst (Update (exampleSys None (behaves None (Some (ExitError 1)) [] ''No matching distribution'' None))
                  exampleWorld exampleConfig ''requirements.txt'')
            = Returns (Some (WithMessage (WithMessage (ExitError 1) ''unable to complete command'')
                               ''unable to update virtualenv''))
        \<and> (\<exists>p. invoked w' = invoked exampleWorld @ [ExecCall p]
              \<and> cmdArgs p = [filepathJoin [Path exampleConfig, ''bin'', ''pip''], ''install'', ''-r'', ''requirements.txt'']))"
proof -
  let ?s = "exampleSys None (behaves None (Some (ExitError 1)) [] ''No matching distribution'' None)"
  let ?v = "\<lparr>Config = exampleConfig, Binary = ''pip'', Args = [''install'', ''-r'', ''requirements.txt''],
             Cwd = [], Env = [], StreamOutput = False\<rparr>"
  have p: "osLookupEnv exampleWorld ''PATH'' \<noteq> None"
    by (simp add: example_PATH)
  have e: "Error out = Some (WithMessage (ExitError 1) ''unable to complete command'')"
    if "Run ?s exampleWorld ?v = (Returns out, w')" for out w'
  proof -
    have "fst (Run ?s exampleWorld ?v) = Returns out" using that by simp
    then show ?thesis
      by (auto simp add: Run_buffered [OF example_PATH] example_started behaves_def cmdRun_def)
  qed
  from Update_runs_pip_install [of ?s exampleWorld exampleConfig "''requirements.txt''"]
  obtain out w' where
    r: "Run ?s exampleWorld ?v = (Returns out, w')" and
    u: "\<forall>e. Error out = Some e \<longrightarrow>
            fst (Update ?s exampleWorld exampleConfig ''requirements.txt'')
              = Returns (Some (WithMessage e ''unable to update virtualenv''))
            \<and> errorKind (Some (WithMessage e ''unable to update virtualenv'')) = Some UpdateError" and
    l: "osLookupEnv exampleWorld ''PATH'' \<noteq> None \<longrightarrow>
          (\<exists>p. invoked w' = invoked exampleWorld @ [ExecCall p]
              \<and> cmdArgs p = [filepathJoin [Path exampleConfig, ''bin'', ''pip''], ''install'', ''-r'', ''requirements.txt'']
              \<and> cmdStdio p = Buffered)"
    by blast
  from e [OF r] u l p r show ?thesis by blast
qed

end
